theory Spec2Isabelle
  imports Complex_Main "HOL-Library.Char_ord" "HOL-Library.List_Lexorder"
begin

section \<open>Errors\<close>

text \<open>
  Every exception the Python code can raise is a value. \<open>UnsupportedTensorShape\<close> and
  \<open>InvalidInputSize\<close> are the two \<open>ValueError\<close>s the repository raises itself; they carry
  the data their messages are formatted from. \<open>TorchError\<close> stands for an error raised
  inside a torch operation.
\<close>

datatype error =
    UnsupportedTensorShape "nat list"
  | InvalidInputSize nat nat nat
  | IndexError
  | KeyError string
  | AttributeError string
  | ZeroDivisionError
  | RuntimeError
  | FileNotFoundError string
  | TorchError

section \<open>utilities.py: check_device\<close>

text \<open>
  The three availability probes of the torch runtime (\<open>torch.cpu.is_available()\<close>,
  \<open>torch.xpu.is_available()\<close>, \<open>torch.cuda.is_available()\<close>) are inputs.
\<close>

record backends =
  cpu_is_available :: bool
  xpu_is_available :: bool
  cuda_is_available :: bool

definition check_device :: "backends \<Rightarrow> string \<Rightarrow> bool" where
  "check_device torch device =
     (if device = ''cpu'' \<and> cpu_is_available torch then True
      else if device = ''xpu'' \<and> xpu_is_available torch then True
      else if (device = ''cuda'' \<or> device = ''rocm'') \<and> cuda_is_available torch then True
      else False)"

section \<open>utilities.py: Dataset and Entry\<close>

record Entry =
  image_path :: "string option"
  mask_path :: "string option"

record Dataset =
  directory :: string
  sort_mode :: string
  entry_map :: "(string \<times> Entry) list"
  entry_list :: "string list"

text \<open>\<open>str.split(sep)\<close> for a one-character separator: never empty, \<open>''''.split\<close> is \<open>['''']\<close>.\<close>

fun split_on :: "char \<Rightarrow> string \<Rightarrow> string list" where
  "split_on c [] = [[]]"
| "split_on c (x # xs) =
     (if x = c then [] # split_on c xs
      else (x # hd (split_on c xs)) # tl (split_on c xs))"

text \<open>\<open>sep.join(parts)\<close>.\<close>

fun str_join :: "string \<Rightarrow> string list \<Rightarrow> string" where
  "str_join sep [] = []"
| "str_join sep [p] = p"
| "str_join sep (p # q # ps) = p @ sep @ str_join sep (q # ps)"

text \<open>\<open>os.path.join(a, b)\<close> of posixpath, for two components.\<close>

definition path_join :: "string \<Rightarrow> string \<Rightarrow> string" where
  "path_join a b =
     (if b \<noteq> [] \<and> hd b = CHR ''/'' then b
      else if a = [] \<or> last a = CHR ''/'' then a @ b
      else a @ ''/'' @ b)"

text \<open>
  The dictionary \<open>entry_map\<close> keeps insertion order, which the second loop of the
  constructor iterates in: an association list with unique keys.
\<close>

fun dict_set :: "(string \<times> Entry) list \<Rightarrow> string \<Rightarrow> Entry \<Rightarrow> (string \<times> Entry) list" where
  "dict_set [] k v = [(k, v)]"
| "dict_set ((k', v') # m) k v = (if k' = k then (k, v) # m else (k', v') # dict_set m k v)"

definition register_image :: "(string \<times> Entry) list \<Rightarrow> string \<Rightarrow> string \<Rightarrow> (string \<times> Entry) list" where
  "register_image m ident path =
     (case map_of m ident of
        Some entry \<Rightarrow> dict_set m ident (entry\<lparr>image_path := Some path\<rparr>)
      | None \<Rightarrow> dict_set m ident \<lparr>image_path = Some path, mask_path = None\<rparr>)"

definition register_mask :: "(string \<times> Entry) list \<Rightarrow> string \<Rightarrow> string \<Rightarrow> (string \<times> Entry) list" where
  "register_mask m ident path =
     (case map_of m ident of
        Some entry \<Rightarrow> dict_set m ident (entry\<lparr>mask_path := Some path\<rparr>)
      | None \<Rightarrow> dict_set m ident \<lparr>image_path = None, mask_path = Some path\<rparr>)"

text \<open>
  The body of the first loop of \<open>Dataset.__init__\<close> (lines 28 to 45) for one file name.
  \<open>isfile\<close> is \<open>os.path.isfile\<close>. The guard is the source's:
  \<open>filename[0] == "." or len(parts) != 5\<close>; \<open>parts[4]\<close> raises IndexError when there
  are fewer than five parts.
\<close>

definition scan_file ::
  "(string \<Rightarrow> bool) \<Rightarrow> string \<Rightarrow> string \<Rightarrow> (string \<times> Entry) list \<Rightarrow> error + (string \<times> Entry) list" where
  "scan_file isfile dir filename m =
     (let path = path_join dir filename in
      if isfile path then
        (let parts = split_on CHR ''-'' filename in
         if filename = [] then Inl IndexError
         else if hd filename = CHR ''.'' \<or> length parts \<noteq> 5 then
           (let ident = str_join ''-'' (take 4 parts) in
            if length parts \<le> 4 then Inl IndexError
            else if parts ! 4 = ''image'' then Inr (register_image m ident path)
            else if parts ! 4 = ''mask'' then Inr (register_mask m ident path)
            else Inr m)
         else Inr m)
      else Inr m)"

fun scan :: "(string \<Rightarrow> bool) \<Rightarrow> string \<Rightarrow> string list \<Rightarrow> (string \<times> Entry) list \<Rightarrow> error + (string \<times> Entry) list" where
  "scan isfile dir [] m = Inr m"
| "scan isfile dir (filename # rest) m =
     (case scan_file isfile dir filename m of
        Inl e \<Rightarrow> Inl e
      | Inr m' \<Rightarrow> scan isfile dir rest m')"

text \<open>
  The second loop (lines 47 to 51) iterates \<open>entry_map.items()\<close> and deletes from the
  dictionary inside the loop. After a deletion the dictionary's iterator raises
  RuntimeError (changed size during iteration) when it is advanced, so the constructor
  fails at the first incomplete entry.
\<close>

fun collect :: "(string \<times> Entry) list \<Rightarrow> string list \<Rightarrow> error + string list" where
  "collect [] el = Inr el"
| "collect ((ident, entry) # rest) el =
     (if image_path entry = None \<or> mask_path entry = None then Inl RuntimeError
      else collect rest (el @ [ident]))"

text \<open>
  Lines 53 to 58. \<open>sorted\<close> on strings is the lexicographic order of the characters.
  The keys of modes \<open>date\<close> and \<open>size\<close> call \<open>.stat()\<close> on \<open>image_path\<close>, which is a
  \<open>str\<close>: AttributeError as soon as the list has an element.
\<close>

definition sort_entries :: "string \<Rightarrow> string list \<Rightarrow> error + string list" where
  "sort_entries mode el =
     (if mode = ''name'' then Inr (sort el)
      else if mode = ''date'' then (if el = [] then Inr el else Inl (AttributeError ''stat''))
      else if mode = ''size'' then (if el = [] then Inr el else Inl (AttributeError ''stat''))
      else Inr el)"

text \<open>
  \<open>Dataset.__init__\<close>. \<open>listing\<close> is what \<open>os.listdir()\<close> returns: the call has no
  argument, so it lists the current working directory, whatever \<open>directory\<close> is.
\<close>

definition Dataset_init :: "string list \<Rightarrow> (string \<Rightarrow> bool) \<Rightarrow> string \<Rightarrow> string \<Rightarrow> error + Dataset" where
  "Dataset_init listing isfile dir mode =
     (case scan isfile dir listing [] of
        Inl e \<Rightarrow> Inl e
      | Inr m \<Rightarrow>
          (case collect m [] of
             Inl e \<Rightarrow> Inl e
           | Inr el \<Rightarrow>
               (case sort_entries mode el of
                  Inl e \<Rightarrow> Inl e
                | Inr el' \<Rightarrow>
                    Inr \<lparr>directory = dir, sort_mode = mode, entry_map = m, entry_list = el'\<rparr>)))"

definition Dataset_size :: "Dataset \<Rightarrow> nat" where
  "Dataset_size d = length (entry_list d)"

definition Dataset_list :: "Dataset \<Rightarrow> string list" where
  "Dataset_list d = entry_list d"

definition Dataset_get :: "Dataset \<Rightarrow> string \<Rightarrow> error + Entry" where
  "Dataset_get d name = (case map_of (entry_map d) name of None \<Rightarrow> Inl (KeyError name) | Some e \<Rightarrow> Inr e)"

section \<open>marker/loader.py: MarkerLoader\<close>

record MarkerLoader =
  entries :: "Entry list"
  loader_width :: int
  loader_height :: int

text \<open>
  The loop of \<open>MarkerLoader.__init__\<close> (lines 15 to 19). Class \<open>Entry\<close> defines
  \<open>__init__\<close> only and its instances have the attributes \<open>image_path\<close> and \<open>mask_path\<close>,
  so the attribute lookup \<open>entry.exists\<close> raises AttributeError.
\<close>

definition Entry_attributes :: "string list" where
  "Entry_attributes = [''__init__'', ''image_path'', ''mask_path'']"

fun loader_loop :: "Dataset \<Rightarrow> string list \<Rightarrow> Entry list \<Rightarrow> error + Entry list" where
  "loader_loop d [] es = Inr es"
| "loader_loop d (name # rest) es =
     (case Dataset_get d name of
        Inl e \<Rightarrow> Inl e
      | Inr entry \<Rightarrow>
          (if List.member Entry_attributes ''exists''
           then (if image_path entry \<noteq> None \<and> mask_path entry \<noteq> None
                 then loader_loop d rest (es @ [entry]) else loader_loop d rest es)
           else Inl (AttributeError ''exists'')))"

definition MarkerLoader_init :: "Dataset \<Rightarrow> int \<Rightarrow> int \<Rightarrow> error + MarkerLoader" where
  "MarkerLoader_init d w h =
     (case loader_loop d (Dataset_list d) [] of
        Inl e \<Rightarrow> Inl e
      | Inr es \<Rightarrow> Inr \<lparr>entries = es, loader_width = w, loader_height = h\<rparr>)"

definition MarkerLoader_len :: "MarkerLoader \<Rightarrow> nat" where
  "MarkerLoader_len l = length (entries l)"

section \<open>utilities.py: fit_tensor\<close>

text \<open>
  A tensor is modelled by its shape, a list of extents. Python's floats are modelled as
  exact rationals: \<open>a / b\<close> on two ints is the rational \<open>a / b\<close>, and it raises
  ZeroDivisionError for \<open>b = 0\<close>. The rounding of binary64 arithmetic is not
  represented: where the exact quotient or product lies within a rounding error of a
  tie, \<open>round\<close> of the float can differ by one from \<open>round\<close> of the exact value.

  \<open>round\<close> on a float rounds to the nearest integer, a tie to the even one.
\<close>

definition py_round :: "rat \<Rightarrow> int" where
  "py_round x =
     (let f = \<lfloor>x\<rfloor>; d = x - of_int f
      in if d < 1 / 2 then f
         else if 1 / 2 < d then f + 1
         else if even f then f else f + 1)"

definition unsqueeze0 :: "nat list \<Rightarrow> nat list" where
  "unsqueeze0 s = 1 # s"

definition squeeze0 :: "nat list \<Rightarrow> nat list" where
  "squeeze0 s = (if s \<noteq> [] \<and> hd s = 1 then tl s else s)"

text \<open>
  \<open>torch.nn.functional.interpolate(t, size=(h, w))\<close> on a 4-dimensional tensor: the two
  spatial extents become \<open>h\<close> and \<open>w\<close>. torch requires a tensor that is empty in its
  batch dimension at most, and positive sizes.
\<close>

definition interpolate :: "nat list \<Rightarrow> int \<Rightarrow> int \<Rightarrow> error + nat list" where
  "interpolate s h w =
     (if length s \<noteq> 4 then Inl TorchError
      else if s ! 1 = 0 \<or> s ! 2 = 0 \<or> s ! 3 = 0 then Inl TorchError
      else if h \<le> 0 \<or> w \<le> 0 then Inl TorchError
      else Inr [s ! 0, s ! 1, nat h, nat w])"

text \<open>
  \<open>torch.nn.functional.pad(t, (left, right, top, bottom))\<close>: the last extent grows by
  \<open>left + right\<close>, the one before it by \<open>top + bottom\<close>; a negative amount crops.
\<close>

definition pad :: "nat list \<Rightarrow> int \<times> int \<times> int \<times> int \<Rightarrow> error + nat list" where
  "pad s p =
     (case p of (pad_left, pad_right, pad_top, pad_bottom) \<Rightarrow>
        if length s < 2 then Inl TorchError
        else
          (let n = length s;
               h' = int (s ! (n - 2)) + pad_top + pad_bottom;
               w' = int (s ! (n - 1)) + pad_left + pad_right
           in if h' < 0 \<or> w' < 0 then Inl TorchError
              else Inr (take (n - 2) s @ [nat h', nat w'])))"

definition container_aspect :: "int \<Rightarrow> int \<Rightarrow> rat" where
  "container_aspect width height = of_int width / of_int height"

definition tensor_aspect :: "nat list \<Rightarrow> rat" where
  "tensor_aspect shape = of_nat (shape ! 2) / of_nat (shape ! 1)"

text \<open>
  Lines 88 to 93: the placed width and height. In the first branch \<open>width / tensor_aspect\<close>
  raises ZeroDivisionError when the tensor's aspect is zero.
\<close>

definition new_size :: "nat list \<Rightarrow> int \<Rightarrow> int \<Rightarrow> error + (int \<times> int)" where
  "new_size shape width height =
     (if tensor_aspect shape > container_aspect width height then
        (if tensor_aspect shape = 0 then Inl ZeroDivisionError
         else Inr (width, py_round (of_int width / tensor_aspect shape)))
      else Inr (py_round (of_int height * tensor_aspect shape), height))"

text \<open>
  \<open>fit_tensor\<close> returns the padded tensor and the tuple
  \<open>(offset_x, offset_y, new_width, new_height)\<close>.
\<close>

definition fit_tensor :: "nat list \<Rightarrow> int \<Rightarrow> int \<Rightarrow> error + (nat list \<times> (int \<times> int \<times> int \<times> int))" where
  "fit_tensor shape width height =
     (if length shape \<noteq> 3 then Inl (UnsupportedTensorShape shape)
      else if height = 0 then Inl ZeroDivisionError
      else if shape ! 1 = 0 then Inl ZeroDivisionError
      else
        (case new_size shape width height of
           Inl e \<Rightarrow> Inl e
         | Inr (new_width, new_height) \<Rightarrow>
             (let offset_x = (width - new_width) div 2;
                  offset_y = (height - new_height) div 2
              in case interpolate (unsqueeze0 shape) new_height new_width of
                   Inl e \<Rightarrow> Inl e
                 | Inr r \<Rightarrow>
                     (let resized_tensor = squeeze0 r;
                          pad_width = width - new_width;
                          pad_height = height - new_height;
                          pad_left = pad_width div 2;
                          pad_right = pad_width - pad_left;
                          pad_top = pad_height div 2;
                          pad_bottom = pad_height - pad_top
                      in case pad resized_tensor (pad_left, pad_right, pad_top, pad_bottom) of
                           Inl e \<Rightarrow> Inl e
                         | Inr padded \<Rightarrow>
                             Inr (padded, (offset_x, offset_y, new_width, new_height))))))"

section \<open>marker/unet.py: UNet\<close>

text \<open>
  The layers, with the constructor arguments the source gives them:
  \<open>Conv2d in out kernel_size padding\<close>, \<open>BatchNorm2d features\<close>, \<open>ReLU\<close>,
  \<open>MaxPool2d kernel_size stride\<close>, \<open>ConvTranspose2d in out kernel_size stride\<close>.
\<close>

datatype layer =
    Conv2d nat nat nat nat
  | BatchNorm2d nat
  | ReLU
  | MaxPool2d nat nat
  | ConvTranspose2d nat nat nat nat

text \<open>
  What a layer does to the shape \<open>(N, C, H, W)\<close> of its input, and when it raises; the
  first argument is the module's training flag.
  \<^item> Every layer but \<open>ReLU\<close> wants four dimensions here: \<open>UNet.forward\<close> reads
    \<open>input.shape[3]\<close> before it applies a layer, so a tensor that reaches a layer has
    four dimensions or more, and the layers refuse more than four.
  \<^item> \<open>Conv2d\<close> and \<open>ConvTranspose2d\<close> refuse a channel count other than the one they were
    built for, \<open>BatchNorm2d\<close> likewise.
  \<^item> \<open>Conv2d\<close> (stride 1, dilation 1) refuses an input whose padded extent is smaller
    than the kernel; its output extent is \<open>H + 2 * padding - (kernel - 1)\<close>.
  \<^item> \<open>BatchNorm2d\<close> in training mode refuses an input with a single value per channel
    (\<open>N * H * W = 1\<close>).
  \<^item> \<open>MaxPool2d\<close> (no padding) refuses an input that is empty outside its batch
    dimension, and one smaller than the kernel; its output extent is
    \<open>(H - kernel) div stride + 1\<close>.
  \<^item> \<open>ConvTranspose2d\<close> (no padding) refuses an empty spatial extent; its output extent
    is \<open>(H - 1) * stride + kernel\<close>.
  An empty batch (\<open>N = 0\<close>) passes every layer and gives an empty batch.
\<close>

fun apply_layer :: "bool \<Rightarrow> layer \<Rightarrow> nat list \<Rightarrow> error + nat list" where
  "apply_layer training (Conv2d cin cout k p) s =
     (if length s \<noteq> 4 \<or> s ! 1 \<noteq> cin then Inl TorchError
      else if s ! 2 + 2 * p < k \<or> s ! 3 + 2 * p < k then Inl TorchError
      else Inr [s ! 0, cout, s ! 2 + 2 * p + 1 - k, s ! 3 + 2 * p + 1 - k])"
| "apply_layer training (BatchNorm2d c) s =
     (if length s \<noteq> 4 \<or> s ! 1 \<noteq> c then Inl TorchError
      else if training \<and> s ! 0 * s ! 2 * s ! 3 = 1 then Inl TorchError
      else Inr s)"
| "apply_layer training ReLU s = Inr s"
| "apply_layer training (MaxPool2d k st) s =
     (if length s \<noteq> 4 \<or> st = 0 then Inl TorchError
      else if s ! 1 = 0 \<or> s ! 2 = 0 \<or> s ! 3 = 0 then Inl TorchError
      else if s ! 2 < k \<or> s ! 3 < k then Inl TorchError
      else Inr [s ! 0, s ! 1, (s ! 2 - k) div st + 1, (s ! 3 - k) div st + 1])"
| "apply_layer training (ConvTranspose2d cin cout k st) s =
     (if length s \<noteq> 4 \<or> s ! 1 \<noteq> cin then Inl TorchError
      else if s ! 2 = 0 \<or> s ! 3 = 0 then Inl TorchError
      else Inr [s ! 0, cout, (s ! 2 - 1) * st + k, (s ! 3 - 1) * st + k])"

text \<open>\<open>torch.cat((a, b), dim=1)\<close>: the shapes agree everywhere but in dimension 1.\<close>

definition cat1 :: "nat list \<Rightarrow> nat list \<Rightarrow> error + nat list" where
  "cat1 a b =
     (if length a < 2 \<or> length a \<noteq> length b then Inl TorchError
      else if a[1 := 0] \<noteq> b[1 := 0] then Inl TorchError
      else Inr (a[1 := a ! 1 + b ! 1]))"

definition DoubleConvolutionalBlock :: "nat \<Rightarrow> nat \<Rightarrow> layer list" where
  "DoubleConvolutionalBlock in_channels out_channels =
     [Conv2d in_channels out_channels 3 1, BatchNorm2d out_channels, ReLU,
      Conv2d out_channels out_channels 3 1, BatchNorm2d out_channels, ReLU]"

text \<open>
  A module of the network is a sequence of layers; \<open>ups\<close> alternates a single
  \<open>ConvTranspose2d\<close> and a double block, as the source appends them.
\<close>

record UNet =
  downs :: "layer list list"
  ups :: "layer list list"
  pool :: layer
  bottleneck :: "layer list"
  final_convolution :: layer

text \<open>The three loops of \<open>UNet.__init__\<close>; \<open>range(depth)\<close> is empty for \<open>depth \<le> 0\<close>.\<close>

fun make_features :: "nat \<Rightarrow> nat list \<Rightarrow> nat list" where
  "make_features 0 features = features"
| "make_features (Suc n) features =
     make_features n (features @ [if length features = 0 then 64 else last features * 2])"

fun make_downs :: "nat list \<Rightarrow> nat \<Rightarrow> layer list list \<Rightarrow> layer list list" where
  "make_downs [] in_channels ds = ds"
| "make_downs (feature # fs) in_channels ds =
     make_downs fs feature (ds @ [DoubleConvolutionalBlock in_channels feature])"

fun make_ups :: "nat list \<Rightarrow> layer list list \<Rightarrow> layer list list" where
  "make_ups [] us = us"
| "make_ups (feature # fs) us =
     make_ups fs (us @ [[ConvTranspose2d (feature * 2) feature 2 2],
                        DoubleConvolutionalBlock (feature * 2) feature])"

text \<open>\<open>features[-1]\<close> raises IndexError on the empty list, that is for \<open>depth \<le> 0\<close>.\<close>

definition UNet_init :: "nat \<Rightarrow> nat \<Rightarrow> int \<Rightarrow> error + UNet" where
  "UNet_init in_channels out_channels depth =
     (let features = make_features (nat depth) [] in
      if features = [] then Inl IndexError
      else Inr \<lparr>downs = make_downs features in_channels [],
                ups = make_ups (rev features) [],
                pool = MaxPool2d 2 2,
                bottleneck = DoubleConvolutionalBlock (last features) (last features * 2),
                final_convolution = Conv2d (hd features) out_channels 1 0\<rparr>)"

text \<open>
  The forward pass carries, beside the shape, the list of the layers applied so far, so
  that where an error arises is part of the result.
\<close>

fun run_module ::
  "bool \<Rightarrow> layer list \<Rightarrow> layer list \<Rightarrow> nat list \<Rightarrow> layer list \<times> (error + nat list)" where
  "run_module training [] tr s = (tr, Inr s)"
| "run_module training (l # ls) tr s =
     (case apply_layer training l s of
        Inl e \<Rightarrow> (tr @ [l], Inl e)
      | Inr s' \<Rightarrow> run_module training ls (tr @ [l]) s')"

fun down_loop ::
  "bool \<Rightarrow> layer \<Rightarrow> layer list list \<Rightarrow> layer list \<Rightarrow> nat list \<Rightarrow> nat list list
     \<Rightarrow> layer list \<times> (error + (nat list \<times> nat list list))" where
  "down_loop training p [] tr s skips = (tr, Inr (s, skips))"
| "down_loop training p (down # ds) tr s skips =
     (case run_module training down tr s of
        (tr1, Inl e) \<Rightarrow> (tr1, Inl e)
      | (tr1, Inr s1) \<Rightarrow>
          (case run_module training [p] tr1 s1 of
             (tr2, Inl e) \<Rightarrow> (tr2, Inl e)
           | (tr2, Inr s2) \<Rightarrow> down_loop training p ds tr2 s2 (skips @ [s1])))"

text \<open>\<open>range(0, n, 2)\<close>.\<close>

definition range2 :: "nat \<Rightarrow> nat list" where
  "range2 n = map (\<lambda>i. 2 * i) [0..<(n + 1) div 2]"

fun up_loop ::
  "bool \<Rightarrow> layer list list \<Rightarrow> nat list list \<Rightarrow> nat list \<Rightarrow> layer list \<Rightarrow> nat list
     \<Rightarrow> layer list \<times> (error + nat list)" where
  "up_loop training us skips [] tr s = (tr, Inr s)"
| "up_loop training us skips (index # rest) tr s =
     (if length us \<le> index then (tr, Inl IndexError)
      else
        (case run_module training (us ! index) tr s of
           (tr1, Inl e) \<Rightarrow> (tr1, Inl e)
         | (tr1, Inr s1) \<Rightarrow>
             (if length skips \<le> index div 2 then (tr1, Inl IndexError)
              else
                (case cat1 (skips ! (index div 2)) s1 of
                   Inl e \<Rightarrow> (tr1, Inl e)
                 | Inr concat_skip \<Rightarrow>
                     (if length us \<le> index + 1 then (tr1, Inl IndexError)
                      else
                        (case run_module training (us ! (index + 1)) tr1 concat_skip of
                           (tr2, Inl e) \<Rightarrow> (tr2, Inl e)
                         | (tr2, Inr s2) \<Rightarrow> up_loop training us skips rest tr2 s2))))))"

text \<open>
  \<open>UNet.forward\<close>, for a network whose training flag is \<open>training\<close>. The guard reads
  \<open>input.shape[3]\<close> first, which raises IndexError on a tensor of fewer than four
  dimensions.
\<close>

definition forward :: "UNet \<Rightarrow> bool \<Rightarrow> nat list \<Rightarrow> layer list \<times> (error + nat list)" where
  "forward net training input =
     (let factor = 2 ^ length (downs net) in
      if length input \<le> 3 then ([], Inl IndexError)
      else if input ! 3 mod factor \<noteq> 0 \<or> input ! 2 mod factor \<noteq> 0
        then ([], Inl (InvalidInputSize (input ! 3) (input ! 2) factor))
      else
        (case down_loop training (pool net) (downs net) [] input [] of
           (tr, Inl e) \<Rightarrow> (tr, Inl e)
         | (tr, Inr (s, skip_connections)) \<Rightarrow>
             (case run_module training (bottleneck net) tr s of
                (tr1, Inl e) \<Rightarrow> (tr1, Inl e)
              | (tr1, Inr s1) \<Rightarrow>
                  (case up_loop training (ups net) (rev skip_connections)
                          (range2 (length (ups net))) tr1 s1 of
                     (tr2, Inl e) \<Rightarrow> (tr2, Inl e)
                   | (tr2, Inr s2) \<Rightarrow> run_module training [final_convolution net] tr2 s2))))"

section \<open>marker/model.py: Marker\<close>

text \<open>
  What belongs to torch is a parameter of the model. The numerical content of the
  network's state dictionary (weights and buffers) is a value of type \<open>'w\<close>, that of
  the optimizer's of type \<open>'o\<close>, that of a batch of type \<open>'b\<close>.
  \<^item> \<open>device_exists\<close>: \<open>torch.device(device)\<close> and moving a module to it succeed;
  \<^item> \<open>initial_state\<close>: the state of a freshly built network;
  \<^item> \<open>Adam\<close>: the state of a fresh optimizer over the network's parameters;
  \<^item> \<open>forward_pass\<close>: the state after the forward pass has taken a batch through the
    listed layers (in training mode a normalisation layer updates its running
    statistics when it is applied);
  \<^item> \<open>training_step\<close>: loss, backward pass and optimizer step on a batch; it returns the
    new states and \<open>loss.item()\<close>.
\<close>

record ('w, 'o, 'b) torch =
  device_exists :: "string \<Rightarrow> bool"
  initial_state :: "UNet \<Rightarrow> 'w"
  Adam :: "'w \<Rightarrow> 'o"
  forward_pass :: "'w \<Rightarrow> 'b \<Rightarrow> layer list \<Rightarrow> 'w"
  training_step :: "'w \<Rightarrow> 'o \<Rightarrow> 'b \<Rightarrow> 'w \<times> 'o \<times> rat"

record ('w, 'o) Marker =
  device :: string
  model :: UNet
  model_state :: 'w
  training :: bool
  width :: int
  height :: int
  depth :: int
  loss :: rat
  iterations :: int
  optimizer_state :: 'o

text \<open>
  The dictionary \<open>save\<close> writes. A state dictionary's keys and tensor shapes are fixed by
  the architecture it was taken from, so each of the two carries that architecture, and
  \<open>load_state_dict\<close> raises when it differs from the receiving one.
\<close>

record ('w, 'o) snapshot =
  data_width :: int
  data_height :: int
  data_depth :: int
  data_loss :: rat
  data_iterations :: int
  data_model_state :: "UNet \<times> 'w"
  data_optimizer_state :: "UNet \<times> 'o"

record telemetry =
  telemetry_loss :: rat
  telemetry_iterations :: int
  telemetry_duration :: int

record 'b batch =
  images :: "nat list"
  masks :: "nat list"
  content :: 'b

text \<open>\<open>Marker.__init__\<close>. A new \<open>nn.Module\<close> is in training mode.\<close>

definition Marker_init ::
  "('w, 'o, 'b) torch \<Rightarrow> string \<Rightarrow> int \<Rightarrow> int \<Rightarrow> int \<Rightarrow> error + ('w, 'o) Marker" where
  "Marker_init rt dev w h d =
     (if device_exists rt dev then
        (case UNet_init 3 1 d of
           Inl e \<Rightarrow> Inl e
         | Inr net \<Rightarrow>
             Inr \<lparr>device = dev, model = net, model_state = initial_state rt net,
                  training = True, width = w, height = h, depth = d,
                  loss = 1, iterations = 0,
                  optimizer_state = Adam rt (initial_state rt net)\<rparr>)
      else Inl TorchError)"

text \<open>
  A slice \<open>start:stop\<close> of a dimension of extent \<open>n\<close>: its length, with Python's clamping
  of the two bounds.
\<close>

definition slice_len :: "nat \<Rightarrow> int \<Rightarrow> int \<Rightarrow> nat" where
  "slice_len n start stop =
     (let clamp = (\<lambda>i. if i < 0 then max (i + int n) 0 else min i (int n))
      in nat (clamp stop - clamp start))"

text \<open>Line 47: four indices, so IndexError on a tensor of fewer than four dimensions.\<close>

definition crop :: "nat list \<Rightarrow> int \<times> int \<times> int \<times> int \<Rightarrow> error + nat list" where
  "crop output transform =
     (case transform of (offset_x, offset_y, new_width, new_height) \<Rightarrow>
        if length output < 4 then Inl IndexError
        else Inr (output[2 := slice_len (output ! 2) offset_y (offset_y + new_height),
                         3 := slice_len (output ! 3) offset_x (offset_x + new_width)]))"

text \<open>
  \<open>Marker.mark\<close>, on the shape of the image; it returns the marker as the call leaves it
  (in evaluation mode) and the shape of the mask, which \<open>sigmoid\<close> keeps.
\<close>

definition mark :: "('w, 'o) Marker \<Rightarrow> nat list \<Rightarrow> ('w, 'o) Marker \<times> (error + nat list)" where
  "mark self image_shape =
     (let self = self\<lparr>training := False\<rparr> in
      case fit_tensor image_shape (width self) (height self) of
        Inl e \<Rightarrow> (self, Inl e)
      | Inr (resized_tensor, transform) \<Rightarrow>
          (case snd (forward (model self) (training self) resized_tensor) of
             Inl e \<Rightarrow> (self, Inl e)
           | Inr output \<Rightarrow>
               (case crop output transform of
                  Inl e \<Rightarrow> (self, Inl e)
                | Inr cropped \<Rightarrow>
                    (if length image_shape \<le> 3 then (self, Inl IndexError)
                     else
                       (case interpolate cropped (int (image_shape ! 2)) (int (image_shape ! 3)) of
                          Inl e \<Rightarrow> (self, Inl e)
                        | Inr output \<Rightarrow> (self, Inr output))))))"

text \<open>
  The loop of \<open>Marker.train\<close> (lines 59 to 72) over the batches the loader yields.
  \<open>BCEWithLogitsLoss\<close> raises when predictions and masks differ in shape. An error leaves
  the marker as the batches before it, and the layers applied to this one, made it.
\<close>

fun train_loop ::
  "('w, 'o, 'b) torch \<Rightarrow> ('w, 'o) Marker \<Rightarrow> 'b batch list \<Rightarrow> rat list
     \<Rightarrow> ('w, 'o) Marker \<times> (error + rat list)" where
  "train_loop rt self [] average = (self, Inr average)"
| "train_loop rt self (b # bs) average =
     (case forward (model self) (training self) (images b) of
        (tr, Inl e) \<Rightarrow>
          (self\<lparr>model_state := forward_pass rt (model_state self) (content b) tr\<rparr>, Inl e)
      | (tr, Inr predictions) \<Rightarrow>
          (let self = self\<lparr>model_state := forward_pass rt (model_state self) (content b) tr\<rparr> in
           if predictions = masks b then
             (case training_step rt (model_state self) (optimizer_state self) (content b) of
                (w, opt, loss_item) \<Rightarrow>
                  train_loop rt (self\<lparr>model_state := w, optimizer_state := opt\<rparr>) bs
                    (average @ [loss_item]))
           else (self, Inl TorchError)))"

text \<open>
  \<open>Marker.train\<close>. \<open>start\<close> and \<open>finish\<close> are the two readings of \<open>time()\<close>.
  \<open>sum(average) / len(average)\<close> raises ZeroDivisionError on the empty list.
\<close>

definition train ::
  "('w, 'o, 'b) torch \<Rightarrow> ('w, 'o) Marker \<Rightarrow> 'b batch list \<Rightarrow> rat \<Rightarrow> rat
     \<Rightarrow> ('w, 'o) Marker \<times> (error + telemetry)" where
  "train rt self loader start finish =
     (case train_loop rt (self\<lparr>training := True\<rparr>) loader [] of
        (self, Inl e) \<Rightarrow> (self, Inl e)
      | (self, Inr average) \<Rightarrow>
          (if length average = 0 then (self, Inl ZeroDivisionError)
           else
             (let self = self\<lparr>loss := sum_list average / of_nat (length average)\<rparr>;
                  self = self\<lparr>iterations := iterations self + 1\<rparr>
              in (self, Inr \<lparr>telemetry_loss = loss self,
                             telemetry_iterations = iterations self,
                             telemetry_duration = py_round (finish - start)\<rparr>))))"

text \<open>
  \<open>Marker.save\<close> and \<open>Marker.load\<close>. The files \<open>torch.save\<close> has written are a map from
  paths to snapshots; \<open>torch.load\<close> of a path that holds none raises.
\<close>

definition save ::
  "('w, 'o) Marker \<Rightarrow> string \<Rightarrow> (string \<rightharpoonup> ('w, 'o) snapshot) \<Rightarrow> (string \<rightharpoonup> ('w, 'o) snapshot)" where
  "save self path files =
     files(path \<mapsto>
       \<lparr>data_width = width self, data_height = height self, data_depth = depth self,
        data_loss = loss self, data_iterations = iterations self,
        data_model_state = (model self, model_state self),
        data_optimizer_state = (model self, optimizer_state self)\<rparr>)"

definition load ::
  "('w, 'o, 'b) torch \<Rightarrow> (string \<rightharpoonup> ('w, 'o) snapshot) \<Rightarrow> string \<Rightarrow> string
     \<Rightarrow> error + ('w, 'o) Marker" where
  "load rt files dev path =
     (case files path of
        None \<Rightarrow> Inl (FileNotFoundError path)
      | Some data \<Rightarrow>
          (case Marker_init rt dev (data_width data) (data_height data) (data_depth data) of
             Inl e \<Rightarrow> Inl e
           | Inr marker \<Rightarrow>
               (if fst (data_model_state data) = model marker then
                  (let marker = marker\<lparr>model_state := snd (data_model_state data)\<rparr> in
                   if fst (data_optimizer_state data) = model marker then
                     (let marker = marker\<lparr>optimizer_state := snd (data_optimizer_state data)\<rparr>;
                          marker = marker\<lparr>loss := data_loss data\<rparr>;
                          marker = marker\<lparr>iterations := data_iterations data\<rparr>
                      in Inr marker)
                   else Inl TorchError)
                else Inl TorchError)))"

text \<open>
  A marker is ready when it is one \<open>Marker.__init__\<close> built: its network is the one its
  depth determines.
\<close>

definition Ready :: "('w, 'o) Marker \<Rightarrow> bool" where
  "Ready self = (UNet_init 3 1 (depth self) = Inr (model self))"

text \<open>
  A batch fits a network when the forward pass in training mode accepts its images and
  the predictions have the shape of its masks, so that neither the network nor the
  loss raises on it.
\<close>

definition batch_fits :: "UNet \<Rightarrow> 'b batch \<Rightarrow> bool" where
  "batch_fits net b = (snd (forward net True (images b)) = Inr (masks b))"

section \<open>Concrete values\<close>

text \<open>
  A small instance of the torch parameters, used to run the definitions: states are
  counters, a batch's content is the loss the step reports on it, and \<open>cpu\<close> is the only
  device. \<open>example_marker\<close> is the marker \<open>Marker.__init__\<close> builds from it for a
  64 by 64 container and depth 1.
\<close>

definition example_torch :: "(nat, nat, rat) torch" where
  "example_torch =
     \<lparr>device_exists = (\<lambda>d. d = ''cpu''),
      initial_state = (\<lambda>net. 0),
      Adam = (\<lambda>w. 0),
      forward_pass = (\<lambda>w b tr. w),
      training_step = (\<lambda>w opt b. (w + 1, opt + 1, b))\<rparr>"

definition example_net :: UNet where
  "example_net =
     \<lparr>downs = [DoubleConvolutionalBlock 3 64],
      ups = [[ConvTranspose2d 128 64 2 2], DoubleConvolutionalBlock 128 64],
      pool = MaxPool2d 2 2,
      bottleneck = DoubleConvolutionalBlock 64 128,
      final_convolution = Conv2d 64 1 1 0\<rparr>"

definition example_marker :: "(nat, nat) Marker" where
  "example_marker =
     \<lparr>device = ''cpu'', model = example_net, model_state = 0, training = True,
      width = 64, height = 64, depth = 1, loss = 1, iterations = 0, optimizer_state = 0\<rparr>"

text \<open>Two batches the network accepts in training mode, and the marker after an epoch on them.\<close>

definition example_loader :: "rat batch list" where
  "example_loader =
     [\<lparr>images = [2, 3, 2, 2], masks = [2, 1, 2, 2], content = 1 / 2\<rparr>,
      \<lparr>images = [1, 3, 4, 2], masks = [1, 1, 4, 2], content = 1 / 4\<rparr>]"

definition example_trained :: "(nat, nat) Marker" where
  "example_trained =
     \<lparr>device = ''cpu'', model = example_net, model_state = 2, training = True,
      width = 64, height = 64, depth = 1, loss = 3 / 8, iterations = 1, optimizer_state = 2\<rparr>"

text \<open>
  A dataset with one complete entry, as \<open>Dataset.__init__\<close> builds it from the two file
  names \<open>a-b-c-d-image-1.png\<close> and \<open>a-b-c-d-mask-1.png\<close>.
\<close>

definition example_dataset :: Dataset where
  "example_dataset =
     \<lparr>directory = ''.'', sort_mode = ''name'',
      entry_map = [(''a-b-c-d'', \<lparr>image_path = Some ''./a-b-c-d-image-1.png'',
                                   mask_path = Some ''./a-b-c-d-mask-1.png''\<rparr>)],
      entry_list = [''a-b-c-d'']\<rparr>"

section \<open>The device probe\<close>

text \<open>
  Claim C10. \<open>check_device\<close> is true exactly for \<open>cpu\<close>, \<open>xpu\<close>, \<open>cuda\<close> and \<open>rocm\<close>
  when the backend of that name reports availability, where \<open>rocm\<close> is answered by the
  CUDA backend; it is false for every other string.
\<close>

theorem check_device_iff:
  "check_device rt dev =
     ((dev = ''cpu'' \<and> cpu_is_available rt) \<or>
      (dev = ''xpu'' \<and> xpu_is_available rt) \<or>
      ((dev = ''cuda'' \<or> dev = ''rocm'') \<and> cuda_is_available rt))
   \<and> (dev \<notin> {''cpu'', ''xpu'', ''cuda'', ''rocm''} \<longrightarrow> \<not> check_device rt dev)"
  by (auto simp: check_device_def)

theorem check_device_iff_witness:
  "check_device \<lparr>cpu_is_available = False, xpu_is_available = False, cuda_is_available = True\<rparr> ''rocm''
   \<and> \<not> check_device \<lparr>cpu_is_available = True, xpu_is_available = True, cuda_is_available = True\<rparr> ''tpu''
   \<and> \<not> check_device \<lparr>cpu_is_available = True, xpu_is_available = True, cuda_is_available = False\<rparr> ''rocm''"
  using check_device_iff [of "\<lparr>cpu_is_available = False, xpu_is_available = False, cuda_is_available = True\<rparr>" "''rocm''"]
        check_device_iff [of "\<lparr>cpu_is_available = True, xpu_is_available = True, cuda_is_available = True\<rparr>" "''tpu''"]
        check_device_iff [of "\<lparr>cpu_is_available = True, xpu_is_available = True, cuda_is_available = False\<rparr>" "''rocm''"]
  by simp

section \<open>The dataset and its loader\<close>

lemma scan_five_parts:
  "list_all (\<lambda>f. f \<noteq> [] \<and> hd f \<noteq> CHR ''.'' \<and> length (split_on CHR ''-'' f) = 5) listing
   \<Longrightarrow> scan isfile dir listing m = Inr m"
  by (induction listing) (simp_all add: scan_file_def Let_def)

text \<open>
  Claim C7 says that the files \<open>a-b-c-d-image.png\<close> and \<open>a-b-c-d-mask.png\<close> give one
  entry with id \<open>a-b-c-d\<close>. The constructor does not do that: its guard lets through
  the names that start with a dot or do not have five segments, so a listing of names
  of exactly five segments, none starting with a dot, registers nothing, and the
  dataset is empty whatever the sort mode.
\<close>

theorem Dataset_init_five_parts:
  "list_all (\<lambda>f. f \<noteq> [] \<and> hd f \<noteq> CHR ''.'' \<and> length (split_on CHR ''-'' f) = 5) listing
   \<Longrightarrow> Dataset_init listing isfile dir mode
       = Inr \<lparr>directory = dir, sort_mode = mode, entry_map = [], entry_list = []\<rparr>"
  by (simp add: Dataset_init_def scan_five_parts sort_entries_def)

theorem Dataset_init_five_parts_witness:
  "Dataset_init [''a-b-c-d-image.png'', ''a-b-c-d-mask.png''] (\<lambda>p. True) ''.'' ''name''
     = Inr \<lparr>directory = ''.'', sort_mode = ''name'', entry_map = [], entry_list = []\<rparr>"
  using Dataset_init_five_parts
          [of "[''a-b-c-d-image.png'', ''a-b-c-d-mask.png'']" "\<lambda>p. True" "''.''" "''name''"]
  by simp

text \<open>What the constructor does register: names of six segments whose fifth is the role.\<close>

lemma example_dataset_built:
  "Dataset_init [''a-b-c-d-image-1.png'', ''a-b-c-d-mask-1.png''] (\<lambda>p. True) ''.'' ''name''
     = Inr example_dataset"
  by (simp add: Dataset_init_def scan_file_def path_join_def sort_entries_def
        register_image_def register_mask_def example_dataset_def)

text \<open>
  Claim C8 says that a loader holds the complete entries of its dataset and hands them
  out by index. The constructor does not get that far: \<open>Entry\<close> has no \<open>exists\<close>, so
  on a dataset that lists an entry it raises AttributeError at the first one.
\<close>

theorem MarkerLoader_init_raises:
  "entry_list d = name # rest \<Longrightarrow> Dataset_get d name = Inr entry
   \<Longrightarrow> MarkerLoader_init d w h = Inl (AttributeError ''exists'')"
  by (simp add: MarkerLoader_init_def Dataset_list_def Entry_attributes_def)

theorem MarkerLoader_init_raises_witness:
  "entry_list example_dataset = [''a-b-c-d'']
   \<and> Dataset_get example_dataset ''a-b-c-d''
       = Inr \<lparr>image_path = Some ''./a-b-c-d-image-1.png'', mask_path = Some ''./a-b-c-d-mask-1.png''\<rparr>
   \<and> MarkerLoader_init example_dataset 64 64 = Inl (AttributeError ''exists'')"
proof -
  have l: "entry_list example_dataset = ''a-b-c-d'' # []"
    by (simp add: example_dataset_def)
  have g: "Dataset_get example_dataset ''a-b-c-d''
             = Inr \<lparr>image_path = Some ''./a-b-c-d-image-1.png'', mask_path = Some ''./a-b-c-d-mask-1.png''\<rparr>"
    by (simp add: Dataset_get_def example_dataset_def)
  from MarkerLoader_init_raises [OF l g] l g show ?thesis by simp
qed

section \<open>The marker\<close>

lemma example_net_built:
  "UNet_init 3 1 1 = Inr example_net" "UNet_init 3 (Suc 0) 1 = Inr example_net"
  by (simp_all add: UNet_init_def example_net_def)

lemma example_marker_built:
  "Marker_init example_torch ''cpu'' 64 64 1 = Inr example_marker"
  by (simp add: Marker_init_def example_net_built example_marker_def example_torch_def)

lemma example_marker_Ready: "Ready example_marker"
  by (simp add: Ready_def example_net_built example_marker_def)

subsection \<open>Training\<close>

text \<open>The loop changes the two states only.\<close>

lemma train_loop_invariant:
  "train_loop rt self bs average = (self', r) \<Longrightarrow>
     model self' = model self \<and> loss self' = loss self \<and> iterations self' = iterations self
     \<and> width self' = width self \<and> height self' = height self \<and> depth self' = depth self
     \<and> device self' = device self \<and> training self' = training self"
proof (induction bs arbitrary: self average)
  case Nil
  then show ?case by simp
next
  case (Cons b bs)
  obtain tr res where f: "forward (model self) (training self) (images b) = (tr, res)"
    by (cases "forward (model self) (training self) (images b)") auto
  let ?passed = "self\<lparr>model_state := forward_pass rt (model_state self) (content b) tr\<rparr>"
  show ?case
  proof (cases res)
    case (Inl e)
    with Cons.prems f show ?thesis by auto
  next
    case (Inr predictions)
    show ?thesis
    proof (cases "predictions = masks b")
      case False
      with Inr Cons.prems f show ?thesis by (auto simp: Let_def)
    next
      case True
      obtain w opt l where st:
        "training_step rt (model_state ?passed) (optimizer_state ?passed) (content b) = (w, opt, l)"
        by (cases "training_step rt (model_state ?passed) (optimizer_state ?passed) (content b)") auto
      from Cons.prems Inr True st f
      have "train_loop rt (?passed\<lparr>model_state := w, optimizer_state := opt\<rparr>) bs (average @ [l])
              = (self', r)"
        by (simp add: Let_def)
      from Cons.IH [OF this] show ?thesis by simp
    qed
  qed
qed

text \<open>
  On batches that fit, the loop of a network in training mode runs to its end and
  records one loss for each.
\<close>

lemma train_loop_total:
  "training self \<Longrightarrow> list_all (batch_fits (model self)) bs \<Longrightarrow>
     \<exists>self' ls. train_loop rt self bs average = (self', Inr (average @ ls))
                \<and> length ls = length bs"
proof (induction bs arbitrary: self average)
  case Nil
  then show ?case by simp
next
  case (Cons b bs)
  from Cons.prems have "batch_fits (model self) b"
    and rest: "list_all (batch_fits (model self)) bs"
    by simp_all
  with Cons.prems(1) have "snd (forward (model self) (training self) (images b)) = Inr (masks b)"
    by (simp add: batch_fits_def)
  then obtain tr where fit: "forward (model self) (training self) (images b) = (tr, Inr (masks b))"
    by (metis prod.collapse)
  let ?passed = "self\<lparr>model_state := forward_pass rt (model_state self) (content b) tr\<rparr>"
  obtain w opt l where st:
    "training_step rt (model_state ?passed) (optimizer_state ?passed) (content b) = (w, opt, l)"
    by (cases "training_step rt (model_state ?passed) (optimizer_state ?passed) (content b)") auto
  let ?next = "?passed\<lparr>model_state := w, optimizer_state := opt\<rparr>"
  from Cons.prems(1) have t: "training ?next" by simp
  from rest have "list_all (batch_fits (model ?next)) bs" by simp
  from Cons.IH [OF t this, of "average @ [l]"] obtain self' ls where
    "train_loop rt ?next bs (average @ [l]) = (self', Inr ((average @ [l]) @ ls))"
    "length ls = length bs"
    by blast
  with fit st have "train_loop rt self (b # bs) average = (self', Inr (average @ (l # ls)))
      \<and> length (l # ls) = length (b # bs)"
    by (simp add: Let_def)
  then show ?case by blast
qed

text \<open>
  Claim C2. On a loader that yields one batch or more, all of which fit the network,
  the loop records as many losses as there are batches; \<open>train\<close> then sets \<open>loss\<close> to
  their arithmetic mean, adds exactly one to \<open>iterations\<close>, and returns a telemetry
  record that holds that loss and that count.
\<close>

theorem train_mean:
  assumes "loader \<noteq> []" and "list_all (batch_fits (model self)) loader"
  shows "\<exists>self' average.
           train_loop rt (self\<lparr>training := True\<rparr>) loader [] = (self', Inr average)
           \<and> length average = length loader
           \<and> train rt self loader start finish =
               (self'\<lparr>loss := sum_list average / of_nat (length loader),
                      iterations := iterations self + 1\<rparr>,
                Inr \<lparr>telemetry_loss = sum_list average / of_nat (length loader),
                     telemetry_iterations = iterations self + 1,
                     telemetry_duration = py_round (finish - start)\<rparr>)"
proof -
  have t: "training (self\<lparr>training := True\<rparr>)" by simp
  from assms(2) have "list_all (batch_fits (model (self\<lparr>training := True\<rparr>))) loader"
    by simp
  from train_loop_total [OF t this, of rt "[]"] obtain self' ls where
    run: "train_loop rt (self\<lparr>training := True\<rparr>) loader [] = (self', Inr ls)"
    and len: "length ls = length loader"
    by auto
  from train_loop_invariant [OF run] have it: "iterations self' = iterations self" by simp
  from assms(1) len have ne: "ls \<noteq> []" by auto
  have "train rt self loader start finish =
               (self'\<lparr>loss := sum_list ls / of_nat (length loader),
                      iterations := iterations self + 1\<rparr>,
                Inr \<lparr>telemetry_loss = sum_list ls / of_nat (length loader),
                     telemetry_iterations = iterations self + 1,
                     telemetry_duration = py_round (finish - start)\<rparr>)"
    using run ne len it by (simp add: train_def Let_def)
  with run len show ?thesis by blast
qed

theorem train_mean_witness:
  "example_loader \<noteq> []
   \<and> list_all (batch_fits (model example_marker)) example_loader
   \<and> train example_torch example_marker example_loader 1 3
       = (example_trained,
          Inr \<lparr>telemetry_loss = 3 / 8, telemetry_iterations = 1, telemetry_duration = 2\<rparr>)"
proof -
  have ne: "example_loader \<noteq> []" by (simp add: example_loader_def)
  have fits: "list_all (batch_fits (model example_marker)) example_loader"
    by code_simp
  have run: "train_loop example_torch (example_marker\<lparr>training := True\<rparr>) example_loader []
               = (example_marker\<lparr>model_state := 2, optimizer_state := 2\<rparr>, Inr [1 / 2, 1 / 4])"
    by code_simp
  from train_mean [OF ne fits, of example_torch 1 3] obtain self' average where
    a: "train_loop example_torch (example_marker\<lparr>training := True\<rparr>) example_loader []
          = (self', Inr average)"
    and t: "train example_torch example_marker example_loader 1 3 =
               (self'\<lparr>loss := sum_list average / of_nat (length example_loader),
                      iterations := iterations example_marker + 1\<rparr>,
                Inr \<lparr>telemetry_loss = sum_list average / of_nat (length example_loader),
                     telemetry_iterations = iterations example_marker + 1,
                     telemetry_duration = py_round (3 - 1)\<rparr>)"
    by blast
  from a [symmetric] run
  have "(self', Inr average :: error + rat list)
          = (example_marker\<lparr>model_state := 2, optimizer_state := 2\<rparr>, Inr [1 / 2, 1 / 4])"
    by (rule trans)
  then have s: "self' = example_marker\<lparr>model_state := 2, optimizer_state := 2\<rparr>"
    and v: "average = [1 / 2, 1 / 4]"
    by simp_all
  have m: "sum_list [1 / 2, 1 / 4 :: rat] / of_nat (length example_loader) = 3 / 8"
    by (simp add: example_loader_def)
  have p: "py_round (3 - 1) = 2" by (simp add: py_round_def)
  have i: "iterations example_marker + 1 = 1" by (simp add: example_marker_def)
  have r: "example_marker\<lparr>model_state := 2, optimizer_state := 2, loss := 3 / 8, iterations := 1\<rparr>
             = example_trained"
    by (simp add: example_marker_def example_trained_def)
  from t have "train example_torch example_marker example_loader 1 3
       = (example_trained,
          Inr \<lparr>telemetry_loss = 3 / 8, telemetry_iterations = 1, telemetry_duration = 2\<rparr>)"
    unfolding s v m p i by (simp add: r)
  with ne fits show ?thesis by blast
qed

text \<open>
  Claim C9. On a loader that yields no batch, \<open>train\<close> raises ZeroDivisionError; the
  marker it leaves differs from the one it was given in the training flag only, so
  \<open>loss\<close> and \<open>iterations\<close> are as they were.
\<close>

theorem train_empty:
  "train rt self [] start finish = (self\<lparr>training := True\<rparr>, Inl ZeroDivisionError)
   \<and> loss (fst (train rt self [] start finish)) = loss self
   \<and> iterations (fst (train rt self [] start finish)) = iterations self"
  by (simp add: train_def)

theorem train_empty_witness:
  "train example_torch example_marker [] 1 3 = (example_marker, Inl ZeroDivisionError)
   \<and> loss (fst (train example_torch example_marker [] 1 3)) = 1
   \<and> iterations (fst (train example_torch example_marker [] 1 3)) = 0"
  using train_empty [of example_torch example_marker 1 3]
  by (simp add: example_marker_def)

subsection \<open>Readiness\<close>

lemma Marker_init_Ready: "Marker_init rt dev w h d = Inr self \<Longrightarrow> Ready self"
  by (auto simp: Marker_init_def Ready_def split: if_splits sum.splits)

lemma train_Ready:
  assumes "Ready self"
  shows "Ready (fst (train rt self loader start finish))"
proof -
  obtain self' res where run: "train_loop rt (self\<lparr>training := True\<rparr>) loader [] = (self', res)"
    by (cases "train_loop rt (self\<lparr>training := True\<rparr>) loader []") auto
  from train_loop_invariant [OF run]
  have "model self' = model self" "depth self' = depth self" by simp_all
  with assms run show ?thesis
    by (cases res) (simp_all add: train_def Ready_def Let_def)
qed

lemma mark_Ready: "Ready self \<Longrightarrow> Ready (fst (mark self img))"
  by (simp add: mark_def Ready_def Let_def split: sum.splits prod.splits)

lemma example_trained_Ready: "Ready example_trained"
  by (simp add: Ready_def example_net_built example_trained_def)

subsection \<open>Marking\<close>

lemma interpolate_unsqueeze:
  "interpolate (unsqueeze0 shape) h w = Inr r \<Longrightarrow> squeeze0 r = [shape ! 0, nat h, nat w]"
  by (auto simp: interpolate_def unsqueeze0_def squeeze0_def split: if_splits)

lemma pad_rank3:
  "pad [c, a, b] p = Inr padded \<Longrightarrow> length padded = 3"
  by (cases p) (auto simp: pad_def Let_def split: if_splits)

text \<open>What \<open>fit_tensor\<close> returns has three dimensions: the batch dimension is squeezed away.\<close>

lemma fit_tensor_rank:
  assumes "fit_tensor shape w h = Inr (padded, transform)"
  shows "length padded = 3"
proof -
  from assms obtain nw nh where ns: "new_size shape w h = Inr (nw, nh)"
    by (cases "new_size shape w h") (auto simp: fit_tensor_def split: if_splits)
  from assms ns obtain r where r: "interpolate (unsqueeze0 shape) nh nw = Inr r"
    by (cases "interpolate (unsqueeze0 shape) nh nw")
       (auto simp: fit_tensor_def Let_def split: if_splits)
  from interpolate_unsqueeze [OF r] have sq: "squeeze0 r = [shape ! 0, nat nh, nat nw]" .
  from assms ns r sq obtain p where "pad [shape ! 0, nat nh, nat nw] p = Inr padded"
    by (auto simp: fit_tensor_def Let_def split: if_splits sum.splits)
  then show ?thesis by (rule pad_rank3)
qed

lemma forward_rank3: "length s = 3 \<Longrightarrow> forward net mode s = ([], Inl IndexError)"
  by (simp add: forward_def Let_def)

text \<open>A call of \<open>mark\<close> whose letterboxing succeeds raises IndexError in the network.\<close>

lemma mark_IndexError:
  assumes "fit_tensor img (width self) (height self) = Inr r"
  shows "snd (mark self img) = Inl IndexError"
proof -
  obtain padded transform where r: "r = (padded, transform)" by (cases r) auto
  with assms have "length padded = 3" using fit_tensor_rank by blast
  then have "forward (model self) False padded = ([], Inl IndexError)" by (rule forward_rank3)
  with assms r show ?thesis by (simp add: mark_def Let_def)
qed

text \<open>So no call of \<open>mark\<close> returns a mask.\<close>

lemma mark_no_output: "\<exists>e. snd (mark self img) = Inl e"
proof (cases "fit_tensor img (width self) (height self)")
  case (Inl e)
  then show ?thesis by (simp add: mark_def Let_def)
next
  case (Inr r)
  then show ?thesis using mark_IndexError by blast
qed

text \<open>
  Claim C3 says that \<open>mark\<close> returns a mask for every image of three dimensions. It
  returns none: an image of another rank is refused by \<open>fit_tensor\<close>, and the tensor
  \<open>fit_tensor\<close> returns has three dimensions, on which \<open>UNet.forward\<close> raises IndexError
  when it reads \<open>input.shape[3]\<close>. So every call raises, and a call whose letterboxing
  succeeds raises IndexError.
\<close>

theorem mark_raises:
  "(\<exists>e. snd (mark self img) = Inl e)
   \<and> (\<forall>r. fit_tensor img (width self) (height self) = Inr r
          \<longrightarrow> snd (mark self img) = Inl IndexError)"
  using mark_no_output mark_IndexError by blast

theorem mark_raises_witness:
  "fit_tensor [3, 48, 64] (width example_marker) (height example_marker)
     = Inr ([3, 64, 64], 0, 8, 64, 48)
   \<and> snd (mark example_marker [3, 48, 64]) = Inl IndexError"
proof -
  have f: "fit_tensor [3, 48, 64] (width example_marker) (height example_marker)
             = Inr ([3, 64, 64], 0, 8, 64, 48)"
    by code_simp
  from mark_raises [of example_marker "[3, 48, 64]"] f show ?thesis by simp
qed

subsection \<open>Saving and loading\<close>

text \<open>What \<open>load\<close> returns on what \<open>save\<close> wrote: the marker, on the device asked for.\<close>

lemma load_save:
  assumes "Ready self" and "device_exists rt dev"
  shows "load rt (save self path files) dev path = Inr (self\<lparr>device := dev, training := True\<rparr>)"
  using assms by (simp add: load_def save_def Marker_init_def Ready_def Let_def)

text \<open>
  Claim C1 says that \<open>load\<close> of what \<open>save\<close> wrote gives a marker with the same scalars,
  the same network and optimizer state, and the same output of \<open>mark\<close> on every image.
  The first two hold: for a ready marker and a device torch accepts, the marker that
  comes back has the width, height, depth, loss and iterations of the original and its
  two states, equal (so within any tolerance). The third has nothing to compare: on
  the marker that comes back, as on the original, \<open>mark\<close> returns no output on any
  image; it raises.
\<close>

theorem save_load:
  assumes "Ready self" and "device_exists rt dev"
  shows "\<exists>marker. load rt (save self path files) dev path = Inr marker
           \<and> width marker = width self \<and> height marker = height self
           \<and> depth marker = depth self \<and> loss marker = loss self
           \<and> iterations marker = iterations self
           \<and> model marker = model self \<and> model_state marker = model_state self
           \<and> optimizer_state marker = optimizer_state self
           \<and> (\<forall>img. \<exists>e. snd (mark marker img) = Inl e)"
proof -
  let ?m = "self\<lparr>device := dev, training := True\<rparr>"
  have l: "load rt (save self path files) dev path = Inr ?m"
    by (rule load_save [OF assms])
  have f: "width ?m = width self" "height ?m = height self" "depth ?m = depth self"
    "loss ?m = loss self" "iterations ?m = iterations self" "model ?m = model self"
    "model_state ?m = model_state self" "optimizer_state ?m = optimizer_state self"
    by simp_all
  have k: "\<forall>img. \<exists>e. snd (mark ?m img) = Inl e"
    by (rule allI) (rule mark_no_output)
  from l f k show ?thesis by blast
qed

theorem save_load_witness:
  "Ready example_trained
   \<and> device_exists example_torch ''cpu''
   \<and> load example_torch (save example_trained ''marker.pt'' Map.empty) ''cpu'' ''marker.pt''
       = Inr example_trained
   \<and> model_state example_trained = 2 \<and> optimizer_state example_trained = 2
   \<and> loss example_trained = 3 / 8 \<and> iterations example_trained = 1
   \<and> initial_state example_torch (model example_trained) = 0
   \<and> snd (mark example_trained [3, 48, 64]) = Inl IndexError"
proof -
  have r: "Ready example_trained" by (rule example_trained_Ready)
  have d: "device_exists example_torch ''cpu''" by (simp add: example_torch_def)
  have v: "model_state example_trained = 2" "optimizer_state example_trained = 2"
    "loss example_trained = 3 / 8" "iterations example_trained = 1"
    "initial_state example_torch (model example_trained) = 0"
    by (simp_all add: example_trained_def example_torch_def)
  have same: "example_trained\<lparr>device := ''cpu'', training := True\<rparr> = example_trained"
    by (simp add: example_trained_def)
  have l: "load example_torch (save example_trained ''marker.pt'' Map.empty) ''cpu'' ''marker.pt''
             = Inr example_trained"
    using load_save [OF r d, of "''marker.pt''" Map.empty] unfolding same .
  from save_load [OF r d, of "''marker.pt''" Map.empty] obtain marker where
    m: "load example_torch (save example_trained ''marker.pt'' Map.empty) ''cpu'' ''marker.pt''
          = Inr marker"
    and none: "\<forall>img. \<exists>e. snd (mark marker img) = Inl e"
    by blast
  from m l have "marker = example_trained" by simp
  have i: "snd (mark example_trained [3, 48, 64]) = Inl IndexError" by code_simp
  from r d l v i show ?thesis by blast
qed

section \<open>The network\<close>

subsection \<open>What the constructor builds\<close>

lemma length_make_features: "length (make_features n fs) = length fs + n"
  by (induction n arbitrary: fs) auto

lemma make_features_step:
  "fs \<noteq> [] \<Longrightarrow> make_features n fs = fs @ map (\<lambda>i. last fs * 2 ^ Suc i) [0..<n]"
proof (induction n arbitrary: fs)
  case 0
  then show ?case by simp
next
  case (Suc n)
  have "make_features (Suc n) fs = make_features n (fs @ [last fs * 2])"
    using Suc.prems by simp
  also have "\<dots> = (fs @ [last fs * 2]) @ map (\<lambda>i. last (fs @ [last fs * 2]) * 2 ^ Suc i) [0..<n]"
    by (rule Suc.IH) simp
  also have "\<dots> = fs @ map (\<lambda>i. last fs * 2 ^ Suc i) [0..<Suc n]"
    by (simp add: map_upt_Suc del: upt_Suc)
  finally show ?case .
qed

text \<open>The feature widths: 64 at the first level, doubled at each further one.\<close>

lemma make_features_closed: "make_features n [] = map (\<lambda>i. 64 * 2 ^ i) [0..<n]"
proof (cases n)
  case 0
  then show ?thesis by simp
next
  case (Suc m)
  have "make_features (Suc m) [] = make_features m [64]" by simp
  also have "\<dots> = [64] @ map (\<lambda>i. last [64] * 2 ^ Suc i) [0..<m]"
    by (rule make_features_step) simp
  also have "\<dots> = map (\<lambda>i. 64 * 2 ^ i) [0..<Suc m]"
    by (simp add: map_upt_Suc del: upt_Suc)
  finally show ?thesis using Suc by simp
qed

lemma make_downs_acc: "make_downs fs c ds = ds @ make_downs fs c []"
proof (induction fs arbitrary: c ds)
  case Nil
  then show ?case by simp
next
  case (Cons f fs)
  have "make_downs (f # fs) c ds = (ds @ [DoubleConvolutionalBlock c f]) @ make_downs fs f []"
    using Cons.IH [of f "ds @ [DoubleConvolutionalBlock c f]"] by simp
  moreover have "make_downs (f # fs) c [] = [DoubleConvolutionalBlock c f] @ make_downs fs f []"
    using Cons.IH [of f "[DoubleConvolutionalBlock c f]"] by simp
  ultimately show ?case by simp
qed

lemma make_downs_Cons:
  "make_downs (f # fs) c [] = DoubleConvolutionalBlock c f # make_downs fs f []"
  using make_downs_acc [of fs f "[DoubleConvolutionalBlock c f]"] by simp

lemma length_make_downs: "length (make_downs fs c ds) = length ds + length fs"
  by (induction fs arbitrary: c ds) auto

lemma make_ups_acc: "make_ups fs us = us @ make_ups fs []"
proof (induction fs arbitrary: us)
  case Nil
  then show ?case by simp
next
  case (Cons f fs)
  let ?two = "[[ConvTranspose2d (f * 2) f 2 2], DoubleConvolutionalBlock (f * 2) f]"
  have "make_ups (f # fs) us = (us @ ?two) @ make_ups fs []"
    using Cons.IH [of "us @ ?two"] by simp
  moreover have "make_ups (f # fs) [] = ?two @ make_ups fs []"
    using Cons.IH [of ?two] by simp
  ultimately show ?case by simp
qed

lemma make_ups_Cons:
  "make_ups (f # fs) [] =
     [ConvTranspose2d (f * 2) f 2 2] # DoubleConvolutionalBlock (f * 2) f # make_ups fs []"
  using make_ups_acc [of fs "[[ConvTranspose2d (f * 2) f 2 2], DoubleConvolutionalBlock (f * 2) f]"]
  by simp

lemma length_make_ups: "length (make_ups fs []) = 2 * length fs"
  by (induction fs) (simp_all add: make_ups_Cons del: make_ups.simps(2))

lemma make_ups_nth:
  "j < length fs \<Longrightarrow>
     make_ups fs [] ! (2 * j) = [ConvTranspose2d (fs ! j * 2) (fs ! j) 2 2]
     \<and> make_ups fs [] ! (2 * j + 1) = DoubleConvolutionalBlock (fs ! j * 2) (fs ! j)"
proof (induction fs arbitrary: j)
  case Nil
  then show ?case by simp
next
  case (Cons f fs)
  show ?case
  proof (cases j)
    case 0
    then show ?thesis by (simp add: make_ups_Cons del: make_ups.simps(2))
  next
    case (Suc i)
    with Cons.prems have "i < length fs" by simp
    from Cons.IH [OF this] Suc show ?thesis
      by (simp add: make_ups_Cons del: make_ups.simps(2))
  qed
qed

lemma UNet_init_built:
  assumes "1 \<le> d"
  shows "UNet_init cin cout d =
           Inr \<lparr>downs = make_downs (make_features (nat d) []) cin [],
                ups = make_ups (rev (make_features (nat d) [])) [],
                pool = MaxPool2d 2 2,
                bottleneck = DoubleConvolutionalBlock (last (make_features (nat d) []))
                               (last (make_features (nat d) []) * 2),
                final_convolution = Conv2d (hd (make_features (nat d) [])) cout 1 0\<rparr>"
proof -
  from assms have "length (make_features (nat d) []) \<noteq> 0"
    by (simp add: length_make_features)
  then have "make_features (nat d) [] \<noteq> []" by simp
  then show ?thesis by (simp add: UNet_init_def Let_def)
qed

lemma UNet_init_downs:
  "UNet_init cin cout d = Inr net \<Longrightarrow> length (downs net) = nat d"
  by (auto simp: UNet_init_def Let_def length_make_features length_make_downs split: if_splits)

subsection \<open>The guard of the forward pass\<close>

text \<open>
  Claim C4. For a depth of one or more the network is built, and on every input of four
  dimensions or more whose height or width is not a multiple of \<open>2 ^ depth\<close> the forward
  pass, in training mode and in evaluation mode, raises the error that names width,
  height and factor, with no layer applied.
\<close>

theorem forward_rejects:
  assumes "1 \<le> d"
  shows "\<exists>net. UNet_init cin cout d = Inr net
           \<and> (\<forall>mode input. 4 \<le> length input
                  \<and> (input ! 2 mod 2 ^ nat d \<noteq> 0 \<or> input ! 3 mod 2 ^ nat d \<noteq> 0)
                \<longrightarrow> forward net mode input
                      = ([], Inl (InvalidInputSize (input ! 3) (input ! 2) (2 ^ nat d))))"
proof -
  from UNet_init_built [OF assms] obtain net where net: "UNet_init cin cout d = Inr net"
    by blast
  from UNet_init_downs [OF net] have len: "length (downs net) = nat d" .
  have "forward net mode input = ([], Inl (InvalidInputSize (input ! 3) (input ! 2) (2 ^ nat d)))"
    if "4 \<le> length input"
      and "input ! 2 mod 2 ^ nat d \<noteq> 0 \<or> input ! 3 mod 2 ^ nat d \<noteq> 0" for mode input
    using that len by (auto simp: forward_def Let_def)
  with net show ?thesis by blast
qed

theorem forward_rejects_witness:
  "UNet_init 3 1 1 = Inr example_net
   \<and> forward example_net True [1, 3, 4, 5] = ([], Inl (InvalidInputSize 5 4 2))
   \<and> forward example_net False [1, 3, 4, 5] = ([], Inl (InvalidInputSize 5 4 2))"
proof -
  have d: "(1::int) \<le> 1" by simp
  from forward_rejects [OF d, of 3 1] obtain net where
    net: "UNet_init 3 1 1 = Inr net"
    and rej: "\<forall>mode input. 4 \<le> length input
                  \<and> (input ! 2 mod 2 ^ nat 1 \<noteq> 0 \<or> input ! 3 mod 2 ^ nat 1 \<noteq> 0)
                \<longrightarrow> forward net mode input
                      = ([], Inl (InvalidInputSize (input ! 3) (input ! 2) (2 ^ nat 1)))"
    by blast
  from net example_net_built(1) have e: "net = example_net" by simp
  have "4 \<le> length [1, 3, 4, 5 :: nat]
          \<and> ([1, 3, 4, 5 :: nat] ! 2 mod 2 ^ nat 1 \<noteq> 0 \<or> [1, 3, 4, 5 :: nat] ! 3 mod 2 ^ nat 1 \<noteq> 0)"
    by simp
  with rej have "forward net mode [1, 3, 4, 5]
      = ([], Inl (InvalidInputSize ([1, 3, 4, 5] ! 3) ([1, 3, 4, 5] ! 2) (2 ^ nat 1)))" for mode
    by blast
  then have "forward example_net mode [1, 3, 4, 5] = ([], Inl (InvalidInputSize 5 4 2))" for mode
    unfolding e by simp
  with example_net_built(1) show ?thesis by blast
qed

subsection \<open>Shapes through the layers\<close>

lemma run_block:
  assumes "0 < h" and "0 < w" and "mode \<Longrightarrow> b * h * w \<noteq> 1"
  shows "run_module mode (DoubleConvolutionalBlock c f) tr [b, c, h, w]
           = (tr @ DoubleConvolutionalBlock c f, Inr [b, f, h, w])"
  using assms by (auto simp: DoubleConvolutionalBlock_def)

lemma run_pool:
  assumes "0 < c" and "0 < h" and "0 < w"
  shows "run_module mode [MaxPool2d 2 2] tr [b, c, 2 * h, 2 * w]
           = (tr @ [MaxPool2d 2 2], Inr [b, c, h, w])"
proof -
  from assms have "(2 * h - 2) div 2 + 1 = h" "(2 * w - 2) div 2 + 1 = w" by simp_all
  with assms show ?thesis by simp
qed

lemma run_transpose:
  assumes "0 < h" and "0 < w"
  shows "run_module mode [ConvTranspose2d c f 2 2] tr [b, c, h, w]
           = (tr @ [ConvTranspose2d c f 2 2], Inr [b, f, 2 * h, 2 * w])"
proof -
  from assms have "(h - 1) * 2 + 2 = 2 * h" "(w - 1) * 2 + 2 = 2 * w" by simp_all
  with assms show ?thesis by simp
qed

lemma run_final:
  assumes "0 < h" and "0 < w"
  shows "run_module mode [Conv2d c f 1 0] tr [b, c, h, w] = (tr @ [Conv2d c f 1 0], Inr [b, f, h, w])"
  using assms by simp

lemma cat1_same: "cat1 [b, c, h, w] [b, c', h, w] = Inr [b, c + c', h, w]"
  by (simp add: cat1_def)

text \<open>Above the bottleneck the extents are even, so a batch has no single value per channel.\<close>

lemma even_extents: "b * (x * 2 ^ Suc n) * (y * 2 ^ Suc n) \<noteq> (1::nat)"
proof
  assume "b * (x * 2 ^ Suc n) * (y * 2 ^ Suc n) = 1"
  moreover have "even (b * (x * 2 ^ Suc n) * (y * 2 ^ Suc n))" by simp
  ultimately show False by simp
qed

text \<open>
  The encoder: on an input whose extents are positive multiples of \<open>2 ^ n\<close>, for \<open>n\<close>
  levels, each level keeps its output before the pooling and halves the extents.
\<close>

lemma down_loop_shapes:
  assumes "0 < hb" and "0 < wb"
  shows "list_all (\<lambda>f. 0 < f) fs \<Longrightarrow>
         snd (down_loop mode (MaxPool2d 2 2) (make_downs fs c []) tr
                [b, c, hb * 2 ^ length fs, wb * 2 ^ length fs] skips)
           = Inr ([b, last (c # fs), hb, wb],
                  skips @ map (\<lambda>i. [b, fs ! i, hb * 2 ^ (length fs - i), wb * 2 ^ (length fs - i)])
                            [0..<length fs])"
proof (induction fs arbitrary: c tr skips)
  case Nil
  then show ?case by simp
next
  case (Cons f fs)
  let ?n = "length fs"
  let ?s1 = "[b, f, hb * 2 ^ Suc ?n, wb * 2 ^ Suc ?n]"
  from Cons.prems have f: "0 < f" and pos: "list_all (\<lambda>f. 0 < f) fs" by simp_all
  from assms have h1: "0 < hb * 2 ^ Suc ?n" and w1: "0 < wb * 2 ^ Suc ?n" by simp_all
  from assms have h0: "0 < hb * 2 ^ ?n" and w0: "0 < wb * 2 ^ ?n" by simp_all
  have blk: "run_module mode (DoubleConvolutionalBlock c f) tr
               [b, c, hb * 2 ^ Suc ?n, wb * 2 ^ Suc ?n]
               = (tr @ DoubleConvolutionalBlock c f, Inr ?s1)"
    by (rule run_block [OF h1 w1]) (rule even_extents)
  have "run_module mode [MaxPool2d 2 2] (tr @ DoubleConvolutionalBlock c f)
          [b, f, 2 * (hb * 2 ^ ?n), 2 * (wb * 2 ^ ?n)]
        = ((tr @ DoubleConvolutionalBlock c f) @ [MaxPool2d 2 2], Inr [b, f, hb * 2 ^ ?n, wb * 2 ^ ?n])"
    by (rule run_pool [OF f h0 w0])
  moreover have "2 * (hb * 2 ^ ?n) = hb * 2 ^ Suc ?n" "2 * (wb * 2 ^ ?n) = wb * 2 ^ Suc ?n"
    by simp_all
  ultimately have pl: "run_module mode [MaxPool2d 2 2] (tr @ DoubleConvolutionalBlock c f) ?s1
        = ((tr @ DoubleConvolutionalBlock c f) @ [MaxPool2d 2 2], Inr [b, f, hb * 2 ^ ?n, wb * 2 ^ ?n])"
    by (simp only:)
  have step: "down_loop mode (MaxPool2d 2 2) (make_downs (f # fs) c []) tr
                [b, c, hb * 2 ^ Suc ?n, wb * 2 ^ Suc ?n] skips
              = down_loop mode (MaxPool2d 2 2) (make_downs fs f [])
                  ((tr @ DoubleConvolutionalBlock c f) @ [MaxPool2d 2 2])
                  [b, f, hb * 2 ^ ?n, wb * 2 ^ ?n] (skips @ [?s1])"
    unfolding make_downs_Cons by (simp only: down_loop.simps blk pl prod.case sum.case)
  have maps: "map (\<lambda>i. [b, (f # fs) ! i, hb * 2 ^ (Suc ?n - i), wb * 2 ^ (Suc ?n - i)]) [0..<Suc ?n]
               = ?s1 # map (\<lambda>i. [b, fs ! i, hb * 2 ^ (?n - i), wb * 2 ^ (?n - i)]) [0..<?n]"
    by (simp add: map_upt_Suc del: upt_Suc)
  have res: "snd (down_loop mode (MaxPool2d 2 2) (make_downs (f # fs) c []) tr
               [b, c, hb * 2 ^ Suc ?n, wb * 2 ^ Suc ?n] skips)
          = Inr ([b, last (f # fs), hb, wb],
                 skips @ ?s1 # map (\<lambda>i. [b, fs ! i, hb * 2 ^ (?n - i), wb * 2 ^ (?n - i)]) [0..<?n])"
    unfolding step
    using Cons.IH [OF pos, of f "(tr @ DoubleConvolutionalBlock c f) @ [MaxPool2d 2 2]" "skips @ [?s1]"]
    by simp
  have len: "length (f # fs) = Suc ?n" by simp
  have lst: "last (c # f # fs) = last (f # fs)" by simp
  show ?case unfolding len maps lst by (rule res)
qed

text \<open>
  The decoder, from its \<open>k\<close>-th stage on: each stage doubles the extents, joins the kept
  output of the matching encoder level and halves the channels.
\<close>

lemma up_loop_shapes:
  assumes us: "length us = 2 * n"
    and stage: "\<forall>j<n. us ! (2 * j) = [ConvTranspose2d (c * 2 ^ (n - j)) (c * 2 ^ (n - 1 - j)) 2 2]
                  \<and> us ! (2 * j + 1)
                      = DoubleConvolutionalBlock (c * 2 ^ (n - j)) (c * 2 ^ (n - 1 - j))"
    and sk: "length skips = n"
    and kept: "\<forall>j<n. skips ! j = [b, c * 2 ^ (n - 1 - j), hb * 2 ^ (j + 1), wb * 2 ^ (j + 1)]"
    and hb: "0 < hb" and wb: "0 < wb"
  shows "k \<le> n \<Longrightarrow>
         snd (up_loop mode us skips (map (\<lambda>i. 2 * i) [k..<n]) tr
                [b, c * 2 ^ (n - k), hb * 2 ^ k, wb * 2 ^ k])
           = Inr [b, c, hb * 2 ^ n, wb * 2 ^ n]"
proof (induction "n - k" arbitrary: k tr)
  case 0
  then have "k = n" by simp
  then show ?case by simp
next
  case (Suc m)
  then have kn: "k < n" by simp
  let ?g = "c * 2 ^ (n - 1 - k)"
  have g2: "c * 2 ^ (n - k) = ?g + ?g"
  proof -
    from kn have "n - k = Suc (n - 1 - k)" by simp
    then show ?thesis by simp
  qed
  let ?tr1 = "tr @ [ConvTranspose2d (c * 2 ^ (n - k)) ?g 2 2]"
  let ?tr2 = "?tr1 @ DoubleConvolutionalBlock (c * 2 ^ (n - k)) ?g"
  from stage kn have u0: "us ! (2 * k) = [ConvTranspose2d (c * 2 ^ (n - k)) ?g 2 2]"
    and u1: "us ! (2 * k + 1) = DoubleConvolutionalBlock (c * 2 ^ (n - k)) ?g"
    by simp_all
  from kept kn have s: "skips ! k = [b, ?g, hb * 2 ^ (k + 1), wb * 2 ^ (k + 1)]" by simp
  from hb wb have p0: "0 < hb * 2 ^ k" "0 < wb * 2 ^ k" by simp_all
  from hb wb have p1: "0 < hb * 2 ^ (k + 1)" "0 < wb * 2 ^ (k + 1)" by simp_all
  have dbl: "2 * (hb * 2 ^ k) = hb * 2 ^ (k + 1)" "2 * (wb * 2 ^ k) = wb * 2 ^ (k + 1)"
    by simp_all
  have t: "run_module mode (us ! (2 * k)) tr [b, c * 2 ^ (n - k), hb * 2 ^ k, wb * 2 ^ k]
             = (?tr1, Inr [b, ?g, hb * 2 ^ (k + 1), wb * 2 ^ (k + 1)])"
    unfolding u0 using run_transpose [OF p0, of mode "c * 2 ^ (n - k)" ?g tr b]
    by (simp only: dbl)
  have ct: "cat1 (skips ! k) [b, ?g, hb * 2 ^ (k + 1), wb * 2 ^ (k + 1)]
              = Inr [b, c * 2 ^ (n - k), hb * 2 ^ (k + 1), wb * 2 ^ (k + 1)]"
    unfolding s cat1_same g2 ..
  have ev: "b * (hb * 2 ^ (k + 1)) * (wb * 2 ^ (k + 1)) \<noteq> 1"
    using even_extents [of b hb k wb] by simp
  have bl: "run_module mode (us ! (2 * k + 1)) ?tr1
              [b, c * 2 ^ (n - k), hb * 2 ^ (k + 1), wb * 2 ^ (k + 1)]
              = (?tr2, Inr [b, ?g, hb * 2 ^ (k + 1), wb * 2 ^ (k + 1)])"
    unfolding u1 by (rule run_block [OF p1]) (rule ev)
  have l1: "\<not> length us \<le> 2 * k" "\<not> length skips \<le> 2 * k div 2" "\<not> length us \<le> 2 * k + 1"
    using kn us sk by simp_all
  have idx: "[k..<n] = k # [Suc k..<n]" using kn by (rule upt_conv_Cons)
  have step: "up_loop mode us skips (map (\<lambda>i. 2 * i) [k..<n]) tr
                [b, c * 2 ^ (n - k), hb * 2 ^ k, wb * 2 ^ k]
              = up_loop mode us skips (map (\<lambda>i. 2 * i) [Suc k..<n]) ?tr2
                  [b, ?g, hb * 2 ^ (k + 1), wb * 2 ^ (k + 1)]"
    unfolding idx list.map up_loop.simps using l1 t ct bl by simp
  from Suc.hyps kn have m: "m = n - Suc k" by simp
  have "snd (up_loop mode us skips (map (\<lambda>i. 2 * i) [Suc k..<n]) ?tr2
               [b, c * 2 ^ (n - Suc k), hb * 2 ^ Suc k, wb * 2 ^ Suc k])
          = Inr [b, c, hb * 2 ^ n, wb * 2 ^ n]"
    using Suc.hyps(1) [OF m] kn by simp
  then show ?case unfolding step by simp
qed

subsection \<open>The forward pass\<close>

text \<open>The forward pass as the composition of its four phases, once the guard is passed.\<close>

lemma forward_phases:
  assumes rank: "4 \<le> length input"
    and div3: "input ! 3 mod 2 ^ length (downs net) = 0"
    and div2: "input ! 2 mod 2 ^ length (downs net) = 0"
    and down: "snd (down_loop mode (pool net) (downs net) [] input []) = Inr (s, skips)"
    and bottom: "\<And>tr. snd (run_module mode (bottleneck net) tr s) = Inr s1"
    and up: "\<And>tr. snd (up_loop mode (ups net) (rev skips) (range2 (length (ups net))) tr s1)
                    = Inr s2"
    and final: "\<And>tr. snd (run_module mode [final_convolution net] tr s2) = Inr s3"
  shows "snd (forward net mode input) = Inr s3"
proof -
  obtain t0 where p0: "down_loop mode (pool net) (downs net) [] input [] = (t0, Inr (s, skips))"
    using down by (metis prod.collapse)
  obtain t1 where p1: "run_module mode (bottleneck net) t0 s = (t1, Inr s1)"
    using bottom [of t0] by (metis prod.collapse)
  obtain t2 where p2: "up_loop mode (ups net) (rev skips) (range2 (length (ups net))) t1 s1
                         = (t2, Inr s2)"
    using up [of t1] by (metis prod.collapse)
  from rank have r: "\<not> length input \<le> 3" by simp
  have "forward net mode input = run_module mode [final_convolution net] t2 s2"
    unfolding forward_def Let_def using r div3 div2
    by (simp only: p0 p1 p2 prod.case sum.case if_False simp_thms)
  then show ?thesis using final [of t2] by simp
qed

lemma features_nth: "i < n \<Longrightarrow> make_features n [] ! i = 64 * 2 ^ i"
  by (simp add: make_features_closed)

lemma features_positive: "list_all (\<lambda>f. 0 < f) (make_features n [])"
  by (simp add: make_features_closed list_all_iff)

lemma features_rev_nth:
  assumes "j < n"
  shows "rev (make_features n []) ! j = 64 * 2 ^ (n - 1 - j)"
proof -
  have len: "length (make_features n []) = n" by (simp add: length_make_features)
  from assms len have "rev (make_features n []) ! j = make_features n [] ! (n - Suc j)"
    by (simp add: rev_nth)
  also from assms have "\<dots> = 64 * 2 ^ (n - Suc j)" by (simp add: features_nth)
  finally show ?thesis by simp
qed

text \<open>
  Claim C5 says that \<open>UNet(3, 1, depth)\<close> takes every tensor of shape
  \<open>(batch, 3, height, width)\<close>, with height and width multiples of \<open>2 ^ depth\<close>, to one of
  shape \<open>(batch, 1, height, width)\<close>. That fails where a layer refuses its input: on an
  empty height or width the first convolution raises, and in training mode, which is
  the mode of a network just built, the normalisation of the bottleneck raises when it
  sees a single value per channel.
\<close>

theorem forward_shape_counterexample:
  "UNet_init 3 1 1 = Inr example_net
   \<and> (2::nat) ^ nat 1 dvd 2
   \<and> snd (forward example_net True [1, 3, 2, 2]) = Inl TorchError
   \<and> (2::nat) ^ nat 1 dvd 0 \<and> (2::nat) ^ nat 1 dvd 4
   \<and> snd (forward example_net True [1, 3, 0, 4]) = Inl TorchError
   \<and> snd (forward example_net False [1, 3, 0, 4]) = Inl TorchError"
proof -
  have a: "snd (forward example_net True [1, 3, 2, 2]) = Inl TorchError" by code_simp
  have b: "snd (forward example_net True [1, 3, 0, 4]) = Inl TorchError" by code_simp
  have c: "snd (forward example_net False [1, 3, 0, 4]) = Inl TorchError" by code_simp
  from example_net_built(1) a b c show ?thesis by simp
qed

text \<open>
  Claim C5, amended. For a depth of one or more and a positive height and width that
  are multiples of \<open>2 ^ depth\<close>, \<open>UNet(3, 1, depth)\<close> is built and takes a tensor of shape
  \<open>(batch, 3, height, width)\<close> to one of shape \<open>(batch, 1, height, width)\<close>: in evaluation
  mode always, and in training mode when the bottleneck does not see a single value per
  channel, that is when \<open>batch * (height / 2 ^ depth) * (width / 2 ^ depth)\<close> is not 1.
\<close>

theorem forward_shape:
  assumes d: "1 \<le> d" and hp: "0 < h" and wp: "0 < w"
    and dh: "2 ^ nat d dvd h" and dw: "2 ^ nat d dvd w"
    and one: "mode \<Longrightarrow> b * (h div 2 ^ nat d) * (w div 2 ^ nat d) \<noteq> 1"
  shows "\<exists>net. UNet_init 3 1 d = Inr net
           \<and> snd (forward net mode [b, 3, h, w]) = Inr [b, 1, h, w]"
proof -
  let ?n = "nat d"
  let ?F = "make_features ?n []"
  let ?net = "\<lparr>downs = make_downs ?F 3 [], ups = make_ups (rev ?F) [], pool = MaxPool2d 2 2,
               bottleneck = DoubleConvolutionalBlock (last ?F) (last ?F * 2),
               final_convolution = Conv2d (hd ?F) 1 1 0\<rparr>"
  from d have n: "0 < ?n" by simp
  have lenF: "length ?F = ?n" by (simp add: length_make_features)
  from n lenF have ne: "?F \<noteq> []" by auto
  from dh obtain hb where h: "h = hb * 2 ^ ?n" by (auto simp: dvd_def mult.commute)
  from dw obtain wb where w: "w = wb * 2 ^ ?n" by (auto simp: dvd_def mult.commute)
  from hp h have hb: "0 < hb" by (cases hb) simp_all
  from wp w have wb: "0 < wb" by (cases wb) simp_all
  have hq: "h div 2 ^ ?n = hb" by (simp add: h)
  have wq: "w div 2 ^ ?n = wb" by (simp add: w)
  from one have one': "mode \<Longrightarrow> b * hb * wb \<noteq> 1" unfolding hq wq .
  have built: "UNet_init 3 1 d = Inr ?net" by (rule UNet_init_built [OF d])
  have lend: "length (downs ?net) = ?n" by (simp add: length_make_downs lenF)
  have lastF: "last ?F = 64 * 2 ^ (?n - 1)"
  proof -
    from ne have "last ?F = ?F ! (?n - 1)" by (simp add: last_conv_nth lenF)
    also from n have "\<dots> = 64 * 2 ^ (?n - 1)" by (simp add: features_nth)
    finally show ?thesis .
  qed
  have hdF: "hd ?F = 64"
  proof -
    from ne have "hd ?F = ?F ! 0" by (simp add: hd_conv_nth)
    also from n have "\<dots> = 64" by (simp add: features_nth)
    finally show ?thesis .
  qed
  let ?S = "map (\<lambda>i. [b, ?F ! i, hb * 2 ^ (?n - i), wb * 2 ^ (?n - i)]) [0..<?n]"
  have down: "snd (down_loop mode (pool ?net) (downs ?net) [] [b, 3, h, w] [])
                = Inr ([b, last ?F, hb, wb], ?S)"
    using down_loop_shapes [OF hb wb features_positive, of mode ?n 3 "[]" b "[]"] ne
    by (simp add: lenF h w)
  have dbl: "last ?F * 2 = 64 * 2 ^ ?n"
  proof -
    from n have "?n = Suc (?n - 1)" by simp
    then have "(2::nat) ^ ?n = 2 ^ (?n - 1) * 2" by (metis power_Suc2)
    with lastF show ?thesis by simp
  qed
  have bottom: "snd (run_module mode (bottleneck ?net) tr [b, last ?F, hb, wb])
                  = Inr [b, 64 * 2 ^ (?n - 0), hb * 2 ^ 0, wb * 2 ^ 0]" for tr
  proof -
    have "run_module mode (DoubleConvolutionalBlock (last ?F) (last ?F * 2)) tr [b, last ?F, hb, wb]
            = (tr @ DoubleConvolutionalBlock (last ?F) (last ?F * 2), Inr [b, last ?F * 2, hb, wb])"
      by (rule run_block [OF hb wb one'])
    then show ?thesis by (simp add: dbl)
  qed
  have lenu: "length (ups ?net) = 2 * ?n" by (simp add: length_make_ups lenF)
  have stage: "\<forall>j<?n. ups ?net ! (2 * j)
                    = [ConvTranspose2d (64 * 2 ^ (?n - j)) (64 * 2 ^ (?n - 1 - j)) 2 2]
                  \<and> ups ?net ! (2 * j + 1)
                      = DoubleConvolutionalBlock (64 * 2 ^ (?n - j)) (64 * 2 ^ (?n - 1 - j))"
  proof (intro allI impI)
    fix j assume j: "j < ?n"
    then have jl: "j < length (rev ?F)" by (simp add: lenF)
    have r: "rev ?F ! j = 64 * 2 ^ (?n - 1 - j)" by (rule features_rev_nth [OF j])
    from j have "?n - j = Suc (?n - 1 - j)" by simp
    then have "(2::nat) ^ (?n - j) = 2 ^ (?n - 1 - j) * 2" by (metis power_Suc2)
    then have r2: "rev ?F ! j * 2 = 64 * 2 ^ (?n - j)" using r by simp
    have sel: "ups ?net = make_ups (rev ?F) []" by simp
    show "ups ?net ! (2 * j)
                    = [ConvTranspose2d (64 * 2 ^ (?n - j)) (64 * 2 ^ (?n - 1 - j)) 2 2]
                  \<and> ups ?net ! (2 * j + 1)
                      = DoubleConvolutionalBlock (64 * 2 ^ (?n - j)) (64 * 2 ^ (?n - 1 - j))"
      unfolding sel by (rule make_ups_nth [OF jl, unfolded r2, unfolded r])
  qed
  have lens: "length (rev ?S) = ?n" by simp
  have kept: "\<forall>j<?n. rev ?S ! j = [b, 64 * 2 ^ (?n - 1 - j), hb * 2 ^ (j + 1), wb * 2 ^ (j + 1)]"
  proof (intro allI impI)
    fix j assume j: "j < ?n"
    then have "rev ?S ! j = ?S ! (?n - Suc j)" by (simp add: rev_nth)
    also from j have "\<dots> = [b, ?F ! (?n - Suc j), hb * 2 ^ (?n - (?n - Suc j)),
                              wb * 2 ^ (?n - (?n - Suc j))]"
      by simp
    also from j have "?F ! (?n - Suc j) = 64 * 2 ^ (?n - 1 - j)" by (simp add: features_nth)
    also from j have "?n - (?n - Suc j) = j + 1" by simp
    finally show "rev ?S ! j = [b, 64 * 2 ^ (?n - 1 - j), hb * 2 ^ (j + 1), wb * 2 ^ (j + 1)]" .
  qed
  have rng: "range2 (length (ups ?net)) = map (\<lambda>i. 2 * i) [0..<?n]"
    unfolding lenu range2_def by simp
  have up: "snd (up_loop mode (ups ?net) (rev ?S) (range2 (length (ups ?net))) tr
                   [b, 64 * 2 ^ (?n - 0), hb * 2 ^ 0, wb * 2 ^ 0])
              = Inr [b, 64, hb * 2 ^ ?n, wb * 2 ^ ?n]" for tr
    unfolding rng by (rule up_loop_shapes [OF lenu stage lens kept hb wb]) simp
  have final: "snd (run_module mode [final_convolution ?net] tr [b, 64, hb * 2 ^ ?n, wb * 2 ^ ?n])
                 = Inr [b, 1, hb * 2 ^ ?n, wb * 2 ^ ?n]" for tr
  proof -
    have fc: "final_convolution ?net = Conv2d 64 1 1 0" by (simp add: hdF)
    from hb wb have "0 < hb * 2 ^ ?n" "0 < wb * 2 ^ ?n" by simp_all
    then show ?thesis unfolding fc by (simp only: run_final snd_conv)
  qed
  have "snd (forward ?net mode [b, 3, h, w]) = Inr [b, 1, hb * 2 ^ ?n, wb * 2 ^ ?n]"
  proof (rule forward_phases [OF _ _ _ down bottom up final])
    show "4 \<le> length [b, 3, h, w]" by simp
    show "[b, 3, h, w] ! 3 mod 2 ^ length (downs ?net) = 0" unfolding lend by (simp add: w)
    show "[b, 3, h, w] ! 2 mod 2 ^ length (downs ?net) = 0" unfolding lend by (simp add: h)
  qed
  with built h w show ?thesis by blast
qed

theorem forward_shape_witness:
  "UNet_init 3 1 1 = Inr example_net
   \<and> snd (forward example_net True [4, 3, 6, 10]) = Inr [4, 1, 6, 10]
   \<and> snd (forward example_net False [1, 3, 2, 2]) = Inr [1, 1, 2, 2]"
proof -
  have d: "(1::int) \<le> 1" by simp
  have p: "(0::nat) < 6" "(0::nat) < 10" "(0::nat) < 2" by simp_all
  have dh: "(2::nat) ^ nat 1 dvd 6" by simp
  have dw: "(2::nat) ^ nat 1 dvd 10" by simp
  have d2: "(2::nat) ^ nat 1 dvd 2" by simp
  have one: "True \<Longrightarrow> (4::nat) * (6 div 2 ^ nat 1) * (10 div 2 ^ nat 1) \<noteq> 1" by simp
  have none: "False \<Longrightarrow> (1::nat) * (2 div 2 ^ nat 1) * (2 div 2 ^ nat 1) \<noteq> 1" by simp
  from forward_shape [OF d p(1) p(2) dh dw one] obtain net where
    "UNet_init 3 1 1 = Inr net" "snd (forward net True [4, 3, 6, 10]) = Inr [4, 1, 6, 10]"
    by blast
  with example_net_built(1) have a: "snd (forward example_net True [4, 3, 6, 10]) = Inr [4, 1, 6, 10]"
    by simp
  from forward_shape [OF d p(3) p(3) d2 d2 none] obtain net' where
    "UNet_init 3 1 1 = Inr net'" "snd (forward net' False [1, 3, 2, 2]) = Inr [1, 1, 2, 2]"
    by blast
  with example_net_built(1) have b: "snd (forward example_net False [1, 3, 2, 2]) = Inr [1, 1, 2, 2]"
    by simp
  from example_net_built(1) a b show ?thesis by blast
qed

section \<open>The letterbox transform\<close>

lemma py_round_of_int: "py_round (of_int n) = n"
  by (simp add: py_round_def)

lemma fit_tensor_new_size:
  assumes "fit_tensor shape w h = Inr (padded, ox, oy, nw, nh)"
  shows "length shape = 3 \<and> h \<noteq> 0 \<and> shape ! 1 \<noteq> 0 \<and> new_size shape w h = Inr (nw, nh)"
proof -
  from assms have g: "length shape = 3" "h \<noteq> 0" "shape ! 1 \<noteq> 0"
    by (auto simp: fit_tensor_def split: if_splits)
  with assms obtain a b where ab: "new_size shape w h = Inr (a, b)"
    by (cases "new_size shape w h") (auto simp: fit_tensor_def)
  with assms g have "a = nw \<and> b = nh"
    by (auto simp: fit_tensor_def Let_def split: sum.splits)
  with g ab show ?thesis by simp
qed

text \<open>
  Claim C6. Whenever \<open>fit_tensor\<close> returns a placement: a source aspect strictly
  greater than the container's gives the placed width the container's width; a
  strictly smaller one gives the placed height the container's height; equal aspects
  give both.
\<close>

theorem fit_tensor_aspect:
  assumes "fit_tensor shape w h = Inr (padded, ox, oy, nw, nh)"
  shows "(tensor_aspect shape > container_aspect w h \<longrightarrow> nw = w)
       \<and> (tensor_aspect shape < container_aspect w h \<longrightarrow> nh = h)
       \<and> (tensor_aspect shape = container_aspect w h \<longrightarrow> nw = w \<and> nh = h)"
proof -
  from fit_tensor_new_size [OF assms]
  have h: "h \<noteq> 0" and ns: "new_size shape w h = Inr (nw, nh)" by simp_all
  have gt: "nw = w" if "tensor_aspect shape > container_aspect w h"
    using ns that by (auto simp: new_size_def split: if_splits)
  have lt: "nh = h" if "tensor_aspect shape < container_aspect w h"
    using ns that by (auto simp: new_size_def split: if_splits)
  have eq: "nw = w \<and> nh = h" if e: "tensor_aspect shape = container_aspect w h"
  proof -
    from ns e have "nw = py_round (of_int h * container_aspect w h)" and "nh = h"
      by (auto simp: new_size_def split: if_splits)
    moreover from h have "of_int h * container_aspect w h = of_int w"
      by (simp add: container_aspect_def)
    ultimately show ?thesis by (simp add: py_round_of_int)
  qed
  from gt lt eq show ?thesis by blast
qed

theorem fit_tensor_aspect_witness:
  "fit_tensor [3, 100, 200] 64 64 = Inr ([3, 64, 64], 0, 16, 64, 32)
   \<and> container_aspect 64 64 < tensor_aspect [3, 100, 200]
   \<and> fit_tensor [3, 200, 100] 64 64 = Inr ([3, 64, 64], 16, 0, 32, 64)
   \<and> tensor_aspect [3, 200, 100] < container_aspect 64 64
   \<and> fit_tensor [3, 48, 96] 64 32 = Inr ([3, 32, 64], 0, 0, 64, 32)
   \<and> tensor_aspect [3, 48, 96] = container_aspect 64 32"
proof -
  have a: "fit_tensor [3, 100, 200] 64 64 = Inr ([3, 64, 64], 0, 16, 64, 32)" by code_simp
  have b: "fit_tensor [3, 200, 100] 64 64 = Inr ([3, 64, 64], 16, 0, 32, 64)" by code_simp
  have c: "fit_tensor [3, 48, 96] 64 32 = Inr ([3, 32, 64], 0, 0, 64, 32)" by code_simp
  have x: "container_aspect 64 64 < tensor_aspect [3, 100, 200]"
    by (simp add: container_aspect_def tensor_aspect_def)
  have y: "tensor_aspect [3, 200, 100] < container_aspect 64 64"
    by (simp add: container_aspect_def tensor_aspect_def)
  have z: "tensor_aspect [3, 48, 96] = container_aspect 64 32"
    by (simp add: container_aspect_def tensor_aspect_def)
  from fit_tensor_aspect [OF a] fit_tensor_aspect [OF b] fit_tensor_aspect [OF c] a b c x y z
  show ?thesis by blast
qed

end
